theory Spec2Isabelle
  imports Main
begin

section \<open>Node model\<close>

text \<open>
  The Go package \<open>parser\<close> (extended variant, with function definitions) represents every
  syntax node by a pointer to a struct that embeds \<open>BaseNode{start, end}\<close>; the countable
  kinds also embed \<open>BaseCountable{count}\<close>, the preamble carries the two flags \<open>UseIO\<close> and
  \<open>UseFmt\<close>, and the two containers carry their children. One constructor per Go struct,
  the fields in declaration order. Offsets and counts are Go \<open>int\<close>s that only ever hold
  byte offsets into the source text and run lengths, so they are natural numbers here.
\<close>

datatype node =
    PreambleNode nat nat bool bool
  | PostambleNode nat nat
  | IncNode nat nat nat
  | DecNode nat nat nat
  | PrevNode nat nat nat
  | NextNode nat nat nat
  | OutputNode nat nat
  | InputNode nat nat
  | LoopNode nat nat "node list"
  | LoopOpenNode nat nat
  | LoopCloseNode nat nat
  | FunctionNode nat nat "node list"
  | FuncOpenNode nat nat
  | FuncCloseNode nat nat
  | FuncExecNode nat nat

fun Pos :: "node \<Rightarrow> nat" where
  "Pos (PreambleNode s e io fm) = s"
| "Pos (PostambleNode s e) = s"
| "Pos (IncNode s e c) = s"
| "Pos (DecNode s e c) = s"
| "Pos (PrevNode s e c) = s"
| "Pos (NextNode s e c) = s"
| "Pos (OutputNode s e) = s"
| "Pos (InputNode s e) = s"
| "Pos (LoopNode s e ns) = s"
| "Pos (LoopOpenNode s e) = s"
| "Pos (LoopCloseNode s e) = s"
| "Pos (FunctionNode s e ns) = s"
| "Pos (FuncOpenNode s e) = s"
| "Pos (FuncCloseNode s e) = s"
| "Pos (FuncExecNode s e) = s"

fun End :: "node \<Rightarrow> nat" where
  "End (PreambleNode s e io fm) = e"
| "End (PostambleNode s e) = e"
| "End (IncNode s e c) = e"
| "End (DecNode s e c) = e"
| "End (PrevNode s e c) = e"
| "End (NextNode s e c) = e"
| "End (OutputNode s e) = e"
| "End (InputNode s e) = e"
| "End (LoopNode s e ns) = e"
| "End (LoopOpenNode s e) = e"
| "End (LoopCloseNode s e) = e"
| "End (FunctionNode s e ns) = e"
| "End (FuncOpenNode s e) = e"
| "End (FuncCloseNode s e) = e"
| "End (FuncExecNode s e) = e"

text \<open>
  \<open>reflect.TypeOf\<close> of a node is the concrete pointer type; \<open>TypeOf\<close> names it.
\<close>

datatype ntype =
    TPreamble | TPostamble | TInc | TDec | TPrev | TNext | TOutput | TInput | TLoop
  | TLoopOpen | TLoopClose | TFunction | TFuncOpen | TFuncClose | TFuncExec

fun TypeOf :: "node \<Rightarrow> ntype" where
  "TypeOf (PreambleNode s e io fm) = TPreamble"
| "TypeOf (PostambleNode s e) = TPostamble"
| "TypeOf (IncNode s e c) = TInc"
| "TypeOf (DecNode s e c) = TDec"
| "TypeOf (PrevNode s e c) = TPrev"
| "TypeOf (NextNode s e c) = TNext"
| "TypeOf (OutputNode s e) = TOutput"
| "TypeOf (InputNode s e) = TInput"
| "TypeOf (LoopNode s e ns) = TLoop"
| "TypeOf (LoopOpenNode s e) = TLoopOpen"
| "TypeOf (LoopCloseNode s e) = TLoopClose"
| "TypeOf (FunctionNode s e ns) = TFunction"
| "TypeOf (FuncOpenNode s e) = TFuncOpen"
| "TypeOf (FuncCloseNode s e) = TFuncClose"
| "TypeOf (FuncExecNode s e) = TFuncExec"

text \<open>
  The interface \<open>Summarizable\<close> (\<open>Count\<close>, \<open>Add\<close>) is implemented by the four structs that
  embed \<open>BaseCountable\<close>. \<open>Add\<close> is \<open>count++\<close>; it is only ever called on such a node.
\<close>

fun Summarizable :: "node \<Rightarrow> bool" where
  "Summarizable (IncNode s e c) = True"
| "Summarizable (DecNode s e c) = True"
| "Summarizable (PrevNode s e c) = True"
| "Summarizable (NextNode s e c) = True"
| "Summarizable n = False"

fun Count :: "node \<Rightarrow> nat" where
  "Count (IncNode s e c) = c"
| "Count (DecNode s e c) = c"
| "Count (PrevNode s e c) = c"
| "Count (NextNode s e c) = c"
| "Count n = 0"

fun Add :: "node \<Rightarrow> node" where
  "Add (IncNode s e c) = IncNode s e (c + 1)"
| "Add (DecNode s e c) = DecNode s e (c + 1)"
| "Add (PrevNode s e c) = PrevNode s e (c + 1)"
| "Add (NextNode s e c) = NextNode s e (c + 1)"
| "Add n = n"

section \<open>Lexer\<close>

text \<open>
  \<open>TokenList\<close> holds the slice \<open>Nodes\<close> and the pointer \<open>lastNode\<close>. The pointer always
  aliases an element of the slice (it is set to the node that was just appended), and
  \<open>Add\<close> mutates that element in place; so \<open>lastNode\<close> is the index of the aliased element,
  \<open>None\<close> for \<open>nil\<close>.
\<close>

record TokenList =
  Nodes :: "node list"
  lastNode :: "nat option"

text \<open>
  \<open>Append\<close>: when the new node is \<open>Summarizable\<close> and has the dynamic type of \<open>lastNode\<close>,
  the count of \<open>lastNode\<close> is incremented and the new node is dropped; otherwise the node
  is appended and remembered. \<open>reflect.TypeOf(nil)\<close> equals no node type.
\<close>

definition Append :: "TokenList \<Rightarrow> node \<Rightarrow> TokenList" where
  "Append t n =
     (case lastNode t of
        Some k \<Rightarrow>
          if Summarizable n \<and> TypeOf (Nodes t ! k) = TypeOf n
          then t\<lparr>Nodes := (Nodes t)[k := Add (Nodes t ! k)]\<rparr>
          else t\<lparr>Nodes := Nodes t @ [n], lastNode := Some (length (Nodes t))\<rparr>
      | None \<Rightarrow> t\<lparr>Nodes := Nodes t @ [n], lastNode := Some (length (Nodes t))\<rparr>)"

text \<open>
  The source text. \<open>for i, c := range s\<close> decodes the string into code points; it yields
  each code point \<open>c\<close> at its byte offset \<open>i\<close> and advances by the number of bytes it
  decoded. A source text is the list of these pairs (code point, bytes advanced).
  \<open>runeLen c\<close> is \<open>len(string(c))\<close>, the length of the UTF-8 encoding of \<open>c\<close> (surrogates
  and values beyond U+10FFFF encode as U+FFFD, three bytes).
\<close>

type_synonym rune = nat

type_synonym source = "(rune \<times> nat) list"

definition runeLen :: "rune \<Rightarrow> nat" where
  "runeLen c =
     (if c < 128 then 1
      else if c < 2048 then 2
      else if (55296 \<le> c \<and> c \<le> 57343) \<or> 1114111 < c then 3
      else if c < 65536 then 3
      else 4)"

text \<open>An ASCII literal as a source text: every character is one byte.\<close>

definition ascii :: "string \<Rightarrow> source" where
  "ascii s = map (\<lambda>c. (of_char c, 1)) s"

text \<open>The \<open>switch c\<close> of \<open>Tokenize\<close>: one case per recognised character, no default.\<close>

definition lexChar :: "TokenList \<Rightarrow> nat \<Rightarrow> rune \<Rightarrow> TokenList" where
  "lexChar t i c =
     (let e = i + runeLen c in
      if c = of_char CHR ''+'' then Append t (IncNode i e 1)
      else if c = of_char CHR ''-'' then Append t (DecNode i e 1)
      else if c = of_char CHR ''<'' then Append t (PrevNode i e 1)
      else if c = of_char CHR ''>'' then Append t (NextNode i e 1)
      else if c = of_char CHR ''['' then Append t (LoopOpenNode i e)
      else if c = of_char CHR '']'' then Append t (LoopCloseNode i e)
      else if c = of_char CHR ''{'' then Append t (FuncOpenNode i e)
      else if c = of_char CHR ''}'' then Append t (FuncCloseNode i e)
      else if c = of_char CHR ''!'' then Append t (FuncExecNode i e)
      else if c = of_char CHR ''.'' then Append t (OutputNode i e)
      else if c = of_char CHR '','' then Append t (InputNode i e)
      else t)"

fun lexLoop :: "TokenList \<Rightarrow> nat \<Rightarrow> source \<Rightarrow> TokenList" where
  "lexLoop t i [] = t"
| "lexLoop t i ((c, w) # s) = lexLoop (lexChar t i c) (i + w) s"

definition Tokenize :: "source \<Rightarrow> TokenList" where
  "Tokenize s =
     Append
       (lexLoop (Append \<lparr>Nodes = [], lastNode = None\<rparr> (PreambleNode 0 0 False False)) 0 s)
       (PostambleNode 0 0)"

section \<open>Formatting\<close>

text \<open>
  \<open>fmt.Sprintf\<close>, as far as the package uses it: the verbs \<open>%d\<close> (on an \<open>int\<close>) and
  \<open>%s\<close> (on a \<open>string\<close>) without flags or width, and \<open>%%\<close>. The diagnostics that Go
  prints for a missing, an extra or an ill-typed operand are written out; any other verb is
  treated as a verb that does not fit its operand. \<open>itoa\<close> is the decimal rendering of
  \<open>%d\<close>.
\<close>

datatype arg = ArgInt nat | ArgStr string

definition digit :: "nat \<Rightarrow> char" where
  "digit d = char_of (48 + d)"

fun itoa :: "nat \<Rightarrow> string" where
  "itoa n = (if n < 10 then [digit n] else itoa (n div 10) @ [digit (n mod 10)])"

fun showArg :: "arg \<Rightarrow> string" where
  "showArg (ArgInt n) = ''int='' @ itoa n"
| "showArg (ArgStr s) = ''string='' @ s"

fun showExtra :: "arg list \<Rightarrow> string" where
  "showExtra [] = []"
| "showExtra [a] = showArg a"
| "showExtra (a # b # as) = showArg a @ '', '' @ showExtra (b # as)"

fun verb :: "char \<Rightarrow> arg \<Rightarrow> string" where
  "verb v (ArgInt n) = (if v = CHR ''d'' then itoa n else ''%!'' @ [v] @ ''(int='' @ itoa n @ '')'')"
| "verb v (ArgStr s) = (if v = CHR ''s'' then s else ''%!'' @ [v] @ ''(string='' @ s @ '')'')"

fun Sprintf :: "string \<Rightarrow> arg list \<Rightarrow> string" where
  "Sprintf [] args = (if args = [] then [] else ''%!(EXTRA '' @ showExtra args @ '')'')"
| "Sprintf [c] args = (if c = CHR ''%'' then ''%!(NOVERB)'' else [c]) @ Sprintf [] args"
| "Sprintf (c # v # f) args =
     (if c \<noteq> CHR ''%'' then c # Sprintf (v # f) args
      else if v = CHR ''%'' then CHR ''%'' # Sprintf f args
      else (case args of
              [] \<Rightarrow> ''%!'' @ [v] @ ''(MISSING)'' @ Sprintf f []
            | a # as \<Rightarrow> verb v a @ Sprintf f as))"

section \<open>Parser\<close>

text \<open>
  \<open>ParseList\<close> is a struct with the single field \<open>Nodes\<close>: a list of nodes here.
  \<open>ParseError\<close> carries the faulty node and the formatted message.
\<close>

type_synonym ParseList = "node list"

record ParseError =
  FaultyNode :: node
  Message :: string

definition parseError :: "node \<Rightarrow> string \<Rightarrow> ParseError" where
  "parseError n msg =
     \<lparr>FaultyNode = n,
      Message = Sprintf ''Error: %s, Position: %d - %d\<newline>''
                  [ArgStr msg, ArgInt (Pos n), ArgInt (End n)]\<rparr>"

text \<open>
  A call returns a value, returns an error, or panics: an index out of range
  (\<open>p2.Nodes[0]\<close>, \<open>p.Nodes[0]\<close> on an empty slice) or a failed type assertion
  (\<open>p.Nodes[0].(*PreambleNode)\<close> on another node).
\<close>

datatype panic = IndexOutOfRange | TypeAssertion

datatype 'a result = Ok 'a | Err ParseError | Panic panic

text \<open>
  \<open>ParseTokens_loop ts nesting i p\<close> is the \<open>for\<close> loop of \<open>ParseTokens\<close> on the slice \<open>ts\<close>
  with loop index \<open>i\<close> and the list \<open>p\<close> built so far. The recursive call of the source
  on \<open>t.Nodes[i+1:]\<close> is the loop on \<open>drop (i + 1) ts\<close> from index 0 with an empty list.
  After an opener the index becomes \<open>i + skip\<close> and the loop header increments it.
  The assignments \<open>UseIO = true\<close> and \<open>UseFmt = true\<close> go through the pointer in
  \<open>p.Nodes[0]\<close>; the node they change is the first element of \<open>p\<close>. The same pointer is
  element 0 of the token slice, which the loop has passed by then; a preamble anywhere
  else in a token slice would be a second alias, and the lexer never produces one.
\<close>

function ParseTokens_loop ::
  "node list \<Rightarrow> nat \<Rightarrow> nat \<Rightarrow> ParseList \<Rightarrow> (ParseList \<times> nat) result" where
  "ParseTokens_loop ts nesting i p =
     (if i < length ts then
        (case ts ! i of
           LoopOpenNode s e \<Rightarrow>
             (case ParseTokens_loop (drop (i + 1) ts) (nesting + 1) 0 [] of
                Ok (p2, skip) \<Rightarrow>
                  if p2 = [] then Panic IndexOutOfRange
                  else ParseTokens_loop ts nesting (i + skip + 1)
                         (p @ [LoopNode (Pos (p2 ! 0)) (End (p2 ! (length p2 - 1))) p2])
              | Err err \<Rightarrow> Err err
              | Panic k \<Rightarrow> Panic k)
         | LoopCloseNode s e \<Rightarrow>
             if nesting = 0 then Err (parseError (ts ! i) ''Loop closed while not open'')
             else Ok (p, i + 1)
         | FuncOpenNode s e \<Rightarrow>
             (case ParseTokens_loop (drop (i + 1) ts) (nesting + 1) 0 [] of
                Ok (p2, skip) \<Rightarrow>
                  if p2 = [] then Panic IndexOutOfRange
                  else ParseTokens_loop ts nesting (i + skip + 1)
                         (p @ [FunctionNode (Pos (p2 ! 0)) (End (p2 ! (length p2 - 1))) p2])
              | Err err \<Rightarrow> Err err
              | Panic k \<Rightarrow> Panic k)
         | FuncCloseNode s e \<Rightarrow>
             if nesting = 0 then Err (parseError (ts ! i) ''Func closed while not open'')
             else Ok (p, i + 1)
         | InputNode s e \<Rightarrow>
             (case p of
                [] \<Rightarrow> Panic IndexOutOfRange
              | PreambleNode ps pe io fm # rest \<Rightarrow>
                  ParseTokens_loop ts nesting (i + 1) ((PreambleNode ps pe True fm # rest) @ [ts ! i])
              | _ # rest \<Rightarrow> Panic TypeAssertion)
         | OutputNode s e \<Rightarrow>
             (case p of
                [] \<Rightarrow> Panic IndexOutOfRange
              | PreambleNode ps pe io fm # rest \<Rightarrow>
                  ParseTokens_loop ts nesting (i + 1) ((PreambleNode ps pe io True # rest) @ [ts ! i])
              | _ # rest \<Rightarrow> Panic TypeAssertion)
         | _ \<Rightarrow> ParseTokens_loop ts nesting (i + 1) (p @ [ts ! i]))
      else Ok (p, 0))"
  by pat_completeness auto
termination
  by (relation "measures [\<lambda>(ts, nesting, i, p). length ts,
                          \<lambda>(ts, nesting, i, p). length ts - i]") auto

definition ParseTokens :: "TokenList \<Rightarrow> nat \<Rightarrow> (ParseList \<times> nat) result" where
  "ParseTokens t nesting = ParseTokens_loop (Nodes t) nesting 0 []"

definition Parse :: "source \<Rightarrow> ParseList result" where
  "Parse s =
     (case ParseTokens (Tokenize s) 0 of
        Ok (p, skip) \<Rightarrow> Ok p
      | Err err \<Rightarrow> Err err
      | Panic k \<Rightarrow> Panic k)"

section \<open>Encoder\<close>

text \<open>
  The text fragments of the \<open>Code\<close> methods, character by character as the raw string
  literals of the source have them (\<open>TAB\<close> is the tab character).
\<close>

abbreviation TAB :: string where
  "TAB \<equiv> [CHR 0x09]"

definition import_io :: string where
  \<open>import_io = ''import "io"\<newline>''\<close>

definition import_fmt :: string where
  \<open>import_fmt = ''import "fmt"\<newline>''\<close>

definition preamble_headers :: string where
  \<open>preamble_headers =
       ''\<newline>''
     @ ''import "os"\<newline>''\<close>

definition preamble_start :: string where
  \<open>preamble_start =
       ''\<newline>''
     @ ''package main\<newline>''\<close>

definition preamble_body :: string where
  \<open>preamble_body =
       ''\<newline>''
     @ ''\<newline>''
     @ ''const REGISTERS = 100\<newline>''
     @ ''\<newline>''
     @ ''func main() {\<newline>''
     @ TAB @ ''registers := make([]byte, REGISTERS)\<newline>''
     @ TAB @ ''functions := make([]func(), REGISTERS)\<newline>''
     @ TAB @ ''currentIndex := 0\<newline>''
     @ ''\<newline>''
     @ TAB @ ''// Suppress unused warnings\<newline>''
     @ TAB @ ''registers[0] = 0\<newline>''
     @ TAB @ ''functions[0] = nil\<newline>''
     @ ''\<newline>''
     @ TAB @ ''// Program begin\<newline>''\<close>

definition postamble_code :: string where
  \<open>postamble_code =
       ''\<newline>''
     @ TAB @ ''// Program end\<newline>''
     @ TAB @ ''// Flush stdout\<newline>''
     @ TAB @ ''os.Stdout.Sync()\<newline>''
     @ ''}\<newline>''\<close>

definition prev_format :: string where
  \<open>prev_format =
       ''\<newline>''
     @ TAB @ ''if currentIndex == 0 {\<newline>''
     @ TAB @ TAB @ ''currentIndex = REGISTERS-1\<newline>''
     @ TAB @ ''} else {\<newline>''
     @ TAB @ TAB @ ''currentIndex -= %d\<newline>''
     @ TAB @ ''}\<newline>''\<close>

definition input_code :: string where
  \<open>input_code =
       ''\<newline>''
     @ TAB @ ''{\<newline>''
     @ TAB @ TAB @ ''_, err := fmt.Scanf("%c", &registers[currentIndex])\<newline>''
     @ ''\<newline>''
     @ TAB @ TAB @ ''if err != nil {\<newline>''
     @ TAB @ TAB @ TAB @ ''if err == io.EOF {\<newline>''
     @ TAB @ TAB @ TAB @ TAB @ ''registers[currentIndex] = 0\<newline>''
     @ TAB @ TAB @ TAB @ ''} else {\<newline>''
     @ TAB @ TAB @ TAB @ TAB @ ''fmt.Println("Keyscan Error:", err)\<newline>''
     @ TAB @ TAB @ TAB @ TAB @ ''return\<newline>''
     @ TAB @ TAB @ TAB @ ''}\<newline>''
     @ TAB @ TAB @ ''}\<newline>''
     @ TAB @ ''}\<newline>''\<close>

definition loop_header :: string where
  \<open>loop_header =
       ''{\<newline>''
     @ TAB @ TAB @ ''for ; registers[currentIndex] > 0; {\<newline>''\<close>

definition loop_footer :: string where
  \<open>loop_footer =
       ''\<newline>''
     @ TAB @ TAB @ ''}\<newline>''
     @ TAB @ ''}\<newline>''\<close>

definition function_header :: string where
  \<open>function_header =
       ''\<newline>''
     @ TAB @ ''functions[currentIndex] = func() {\<newline>''\<close>

definition function_footer :: string where
  \<open>function_footer =
       ''\<newline>''
     @ TAB @ ''}\<newline>''\<close>

definition funcexec_code :: string where
  \<open>funcexec_code =
       ''\<newline>''
     @ TAB @ ''if functions[currentIndex] != nil {\<newline>''
     @ TAB @ TAB @ ''functions[currentIndex]()\<newline>''
     @ TAB @ ''}\<newline>''\<close>

text \<open>
  \<open>Encodable\<close> is implemented by every node type that has a \<open>Code\<close> method: all but the
  four markers. \<open>Code n\<close> is \<open>None\<close> where the source panics: the assertion
  \<open>node.(Encodable)\<close> on a child that is a marker. \<open>CodeNodes code ns\<close> is the loop
  \<open>for _, node := range n.Nodes\<close> of the two containers, started with \<open>code\<close>.
\<close>

fun Encodable :: "node \<Rightarrow> bool" where
  "Encodable (LoopOpenNode s e) = False"
| "Encodable (LoopCloseNode s e) = False"
| "Encodable (FuncOpenNode s e) = False"
| "Encodable (FuncCloseNode s e) = False"
| "Encodable n = True"

fun Code :: "node \<Rightarrow> string option"
  and CodeNodes :: "string \<Rightarrow> node list \<Rightarrow> string option" where
  "Code (PreambleNode s e io fm) =
     Some (((preamble_start @ preamble_headers)
            @ (if io then import_io else [])
            @ (if fm then import_fmt else []))
           @ preamble_body)"
| "Code (PostambleNode s e) = Some postamble_code"
| "Code (IncNode s e c) = Some (Sprintf ''registers[currentIndex] += %d\<newline>'' [ArgInt c])"
| "Code (DecNode s e c) = Some (Sprintf ''registers[currentIndex] -= %d\<newline>'' [ArgInt c])"
| "Code (PrevNode s e c) = Some (Sprintf prev_format [ArgInt c])"
| "Code (NextNode s e c) =
     Some (Sprintf ''currentIndex = (currentIndex + %d) %% REGISTERS\<newline>'' [ArgInt c])"
| "Code (OutputNode s e) = Some ''fmt.Print(string(registers[currentIndex]))\<newline>''"
| "Code (InputNode s e) = Some input_code"
| "Code (LoopNode s e ns) = map_option (\<lambda>code. code @ loop_footer) (CodeNodes loop_header ns)"
| "Code (FunctionNode s e ns) =
     map_option (\<lambda>code. code @ function_footer) (CodeNodes function_header ns)"
| "Code (FuncExecNode s e) = Some funcexec_code"
| "Code (LoopOpenNode s e) = None"
| "Code (LoopCloseNode s e) = None"
| "Code (FuncOpenNode s e) = None"
| "Code (FuncCloseNode s e) = None"
| "CodeNodes code [] = Some code"
| "CodeNodes code (n # ns) =
     (case Code n of
        None \<Rightarrow> None
      | Some c \<Rightarrow> CodeNodes (code @ (TAB @ TAB @ TAB) @ c) ns)"

text \<open>
  \<open>Encode\<close>: the loop over the top-level list, which skips a node that is not
  \<open>Encodable\<close>.
\<close>

fun Encode_loop :: "string \<Rightarrow> node list \<Rightarrow> string option" where
  "Encode_loop code [] = Some code"
| "Encode_loop code (n # ns) =
     (if Encodable n
      then (case Code n of
              None \<Rightarrow> None
            | Some c \<Rightarrow> Encode_loop (code @ TAB @ c) ns)
      else Encode_loop code ns)"

definition Encode :: "ParseList \<Rightarrow> string option" where
  "Encode t = Encode_loop [] t"

section \<open>Notions used in the statements\<close>

text \<open>
  The characters the lexer has a case for, and the characters a token stands for: a
  countable node of count \<open>c\<close> stands for \<open>c\<close> copies of its operation character, a marker
  or singleton leaf for its one character, and a node that no character produces
  (preamble, postamble, container) for none.
\<close>

definition recognised :: "rune \<Rightarrow> bool" where
  "recognised c = (c \<in> of_char ` set ''+-<>[]{}!.,'')"

definition countable :: "rune \<Rightarrow> bool" where
  "countable c = (c \<in> of_char ` set ''+-<>'')"

fun chars :: "node \<Rightarrow> rune list" where
  "chars (IncNode s e c) = replicate c (of_char CHR ''+'')"
| "chars (DecNode s e c) = replicate c (of_char CHR ''-'')"
| "chars (PrevNode s e c) = replicate c (of_char CHR ''<'')"
| "chars (NextNode s e c) = replicate c (of_char CHR ''>'')"
| "chars (LoopOpenNode s e) = [of_char CHR ''['']"
| "chars (LoopCloseNode s e) = [of_char CHR '']'']"
| "chars (FuncOpenNode s e) = [of_char CHR ''{'']"
| "chars (FuncCloseNode s e) = [of_char CHR ''}'']"
| "chars (FuncExecNode s e) = [of_char CHR ''!'']"
| "chars (OutputNode s e) = [of_char CHR ''.'']"
| "chars (InputNode s e) = [of_char CHR '','']"
| "chars (PreambleNode s e io fm) = []"
| "chars (PostambleNode s e) = []"
| "chars (LoopNode s e ns) = []"
| "chars (FunctionNode s e ns) = []"

text \<open>The recognised characters of a source text, in order.\<close>

definition opchars :: "source \<Rightarrow> rune list" where
  "opchars s = filter recognised (map fst s)"

text \<open>The number of container and output nodes in a tree.\<close>

fun countLoops :: "node \<Rightarrow> nat" and countLoopsList :: "node list \<Rightarrow> nat" where
  "countLoops (LoopNode s e ns) = 1 + countLoopsList ns"
| "countLoops (FunctionNode s e ns) = countLoopsList ns"
| "countLoops (PreambleNode s e io fm) = 0"
| "countLoops (PostambleNode s e) = 0"
| "countLoops (IncNode s e c) = 0"
| "countLoops (DecNode s e c) = 0"
| "countLoops (PrevNode s e c) = 0"
| "countLoops (NextNode s e c) = 0"
| "countLoops (OutputNode s e) = 0"
| "countLoops (InputNode s e) = 0"
| "countLoops (LoopOpenNode s e) = 0"
| "countLoops (LoopCloseNode s e) = 0"
| "countLoops (FuncOpenNode s e) = 0"
| "countLoops (FuncCloseNode s e) = 0"
| "countLoops (FuncExecNode s e) = 0"
| "countLoopsList [] = 0"
| "countLoopsList (n # ns) = countLoops n + countLoopsList ns"

fun countOutputs :: "node \<Rightarrow> nat" and countOutputsList :: "node list \<Rightarrow> nat" where
  "countOutputs (OutputNode s e) = 1"
| "countOutputs (LoopNode s e ns) = countOutputsList ns"
| "countOutputs (FunctionNode s e ns) = countOutputsList ns"
| "countOutputs (PreambleNode s e io fm) = 0"
| "countOutputs (PostambleNode s e) = 0"
| "countOutputs (IncNode s e c) = 0"
| "countOutputs (DecNode s e c) = 0"
| "countOutputs (PrevNode s e c) = 0"
| "countOutputs (NextNode s e c) = 0"
| "countOutputs (InputNode s e) = 0"
| "countOutputs (LoopOpenNode s e) = 0"
| "countOutputs (LoopCloseNode s e) = 0"
| "countOutputs (FuncOpenNode s e) = 0"
| "countOutputs (FuncCloseNode s e) = 0"
| "countOutputs (FuncExecNode s e) = 0"
| "countOutputsList [] = 0"
| "countOutputsList (n # ns) = countOutputs n + countOutputsList ns"

text \<open>The children of a container.\<close>

fun children :: "node \<Rightarrow> node list" where
  "children (LoopNode s e ns) = ns"
| "children (FunctionNode s e ns) = ns"
| "children n = []"

text \<open>The number of places of a text at which a pattern occurs.\<close>

fun startsWith :: "string \<Rightarrow> string \<Rightarrow> bool" where
  "startsWith [] s = True"
| "startsWith (p # ps) [] = False"
| "startsWith (p # ps) (c # cs) = (p = c \<and> startsWith ps cs)"

fun occurrences :: "string \<Rightarrow> string \<Rightarrow> nat" where
  "occurrences pat [] = (if pat = [] then 1 else 0)"
| "occurrences pat (c # cs) = (if startsWith pat (c # cs) then 1 else 0) + occurrences pat cs"

text \<open>The texts the encoder emits for a loop wrapper and for an output statement.\<close>

definition loop_wrapper :: string where
  "loop_wrapper = ''for ; registers[currentIndex] > 0; {''"

definition output_statement :: string where
  "output_statement = ''fmt.Print(string(registers[currentIndex]))''"

text \<open>The number a decimal numeral denotes.\<close>

definition decimal :: "string \<Rightarrow> nat" where
  "decimal ds = foldl (\<lambda>n d. 10 * n + (of_char d - 48)) 0 ds"

section \<open>The lexer: unrecognised characters\<close>

lemma lexChar_unrecognised: "\<not> recognised c \<Longrightarrow> lexChar t i c = t"
  by (simp add: recognised_def lexChar_def Let_def)

lemma lexLoop_unrecognised: "\<forall>(c, w) \<in> set u. \<not> recognised c \<Longrightarrow> lexLoop t i u = t"
  by (induction u arbitrary: t i) (auto simp: lexChar_unrecognised)

lemma lexLoop_append:
  "lexLoop t i (u @ v) = lexLoop (lexLoop t i u) (i + sum_list (map snd u)) v"
  by (induction u arbitrary: t i) (auto simp: add.assoc)

text \<open>
  Claim C10. A character without a case in the lexer's switch leaves \<open>lastNode\<close> as it
  is, so two equal countable characters with only such characters between them become
  one node of count 2, for each of the four countable operations; \<open>+a+\<close> is lexed into
  a single increment of count 2.
\<close>

theorem C10_unrecognised_keeps_lastNode:
  assumes "\<forall>(c, w) \<in> set u. \<not> recognised c"
  shows "Nodes (Tokenize (ascii ''+'' @ u @ ascii ''+'')) =
           [PreambleNode 0 0 False False, IncNode 0 1 2, PostambleNode 0 0]
       \<and> Nodes (Tokenize (ascii ''-'' @ u @ ascii ''-'')) =
           [PreambleNode 0 0 False False, DecNode 0 1 2, PostambleNode 0 0]
       \<and> Nodes (Tokenize (ascii ''<'' @ u @ ascii ''<'')) =
           [PreambleNode 0 0 False False, PrevNode 0 1 2, PostambleNode 0 0]
       \<and> Nodes (Tokenize (ascii ''>'' @ u @ ascii ''>'')) =
           [PreambleNode 0 0 False False, NextNode 0 1 2, PostambleNode 0 0]"
  using assms
  by (simp add: Tokenize_def ascii_def lexLoop_append lexLoop_unrecognised
        lexChar_def Append_def runeLen_def)

theorem C10_witness:
  "\<not> recognised (of_char CHR ''a'')
   \<and> Nodes (Tokenize (ascii ''+a+'')) =
           [PreambleNode 0 0 False False, IncNode 0 1 2, PostambleNode 0 0]"
proof -
  have r: "\<not> recognised (of_char CHR ''a'')"
    by (simp add: recognised_def)
  then have h: "\<forall>(c, w) \<in> set (ascii ''a''). \<not> recognised c"
    by (simp add: ascii_def)
  from C10_unrecognised_keeps_lastNode [OF h] show ?thesis
    using r by (simp add: ascii_def)
qed

section \<open>The parser on single inputs\<close>

text \<open>
  Claim C2. Whatever the tokens before and after it and whatever has been collected, the
  loop at nesting depth 0 that stands at a \<open>LoopCloseNode\<close> or a \<open>FuncCloseNode\<close> returns
  the error built from that very node; the tokens after it play no part. The error
  carries the node and the message formatted from its span. Parsing \<open>]\<close> returns the
  error for the marker with span 0 to 1.
\<close>

theorem C2_unmatched_closer:
  "ParseTokens_loop (pre @ LoopCloseNode s e # post) 0 (length pre) p =
     Err (parseError (LoopCloseNode s e) ''Loop closed while not open'')
   \<and> ParseTokens_loop (pre @ FuncCloseNode s e # post) 0 (length pre) p =
     Err (parseError (FuncCloseNode s e) ''Func closed while not open'')
   \<and> FaultyNode (parseError n msg) = n
   \<and> Message (parseError n msg) =
       ''Error: '' @ msg @ '', Position: '' @ itoa (Pos n) @ '' - '' @ itoa (End n) @ ''\<newline>''
   \<and> Parse (ascii '']'') =
       Err \<lparr>FaultyNode = LoopCloseNode 0 1,
            Message = ''Error: Loop closed while not open, Position: 0 - 1\<newline>''\<rparr>"
proof -
  have a: "ParseTokens_loop (pre @ LoopCloseNode s e # post) 0 (length pre) p =
     Err (parseError (LoopCloseNode s e) ''Loop closed while not open'')"
    by (subst ParseTokens_loop.simps) simp
  have b: "ParseTokens_loop (pre @ FuncCloseNode s e # post) 0 (length pre) p =
     Err (parseError (FuncCloseNode s e) ''Func closed while not open'')"
    by (subst ParseTokens_loop.simps) simp
  have c: "FaultyNode (parseError n msg) = n"
    by (simp add: parseError_def)
  have d: "Message (parseError n msg) =
       ''Error: '' @ msg @ '', Position: '' @ itoa (Pos n) @ '' - '' @ itoa (End n) @ ''\<newline>''"
    by (simp add: parseError_def del: itoa.simps)
  have e: "Parse (ascii '']'') =
       Err \<lparr>FaultyNode = LoopCloseNode 0 1,
            Message = ''Error: Loop closed while not open, Position: 0 - 1\<newline>''\<rparr>"
    by code_simp
  from a b c d e show ?thesis by blast
qed

text \<open>
  Claim C1. The input \<open>[]\<close> is well bracketed, and parsing it does not succeed: the
  recursive call returns an empty child list and \<open>p2.Nodes[0]\<close> is out of range.
\<close>

theorem C1_empty_loop_panics:
  "Parse (ascii ''[]'') = Panic IndexOutOfRange"
  by code_simp

text \<open>
  Claim C4. The out-of-range accesses are reached: on \<open>[]\<close> by the child-list indexing,
  on \<open>[,]\<close> by \<open>p.Nodes[0]\<close> of the empty nested list; and on \<open>[+,]\<close> and \<open>[+.]\<close> the
  first node of the nested list is no preamble, so the type assertion fails.
\<close>

theorem C4_panics_reached:
  "Parse (ascii ''[]'') = Panic IndexOutOfRange
   \<and> Parse (ascii ''[,]'') = Panic IndexOutOfRange
   \<and> Parse (ascii ''[+,]'') = Panic TypeAssertion
   \<and> Parse (ascii ''[+.]'') = Panic TypeAssertion"
  by code_simp

text \<open>
  Claim C5, as stated: three loop nodes and three loop wrappers. The input has two
  opening brackets; the tree has two loop nodes and the text two wrappers.
\<close>

theorem C5_counterexample:
  "(case Parse (ascii ''+++[>+++[>+++<-]<-]>+.'') of
      Ok p \<Rightarrow> countLoopsList p \<noteq> 3
              \<and> map_option (occurrences loop_wrapper) (Encode p) \<noteq> Some 3
    | Err err \<Rightarrow> False
    | Panic k \<Rightarrow> False)"
  by code_simp

text \<open>
  Claim C5, amended. Parsing \<open>+++[>+++[>+++<-]<-]>+.\<close> succeeds with the tree below: two
  loop nodes, one inside the other, and one output node; its encoding has exactly two
  loop wrappers and exactly one output statement.
\<close>

theorem C5_two_loops:
  "(case Parse (ascii ''+++[>+++[>+++<-]<-]>+.'') of
      Ok p \<Rightarrow>
        p = [PreambleNode 0 0 False True, IncNode 0 1 3,
             LoopNode 4 18
               [NextNode 4 5 1, IncNode 5 6 3,
                LoopNode 9 15 [NextNode 9 10 1, IncNode 10 11 3, PrevNode 13 14 1, DecNode 14 15 1],
                PrevNode 16 17 1, DecNode 17 18 1],
             NextNode 19 20 1, IncNode 20 21 1, OutputNode 21 22, PostambleNode 0 0]
        \<and> countLoopsList p = 2
        \<and> countOutputsList p = 1
        \<and> map_option (occurrences loop_wrapper) (Encode p) = Some 2
        \<and> map_option (occurrences output_statement) (Encode p) = Some 1
    | Err err \<Rightarrow> False
    | Panic k \<Rightarrow> False)"
  by code_simp

text \<open>
  Claim C8, as stated: the definition body is the single increment. The body holds two
  nodes, and the second is the \<open>FuncExecNode\<close> of the \<open>!\<close>.
\<close>

theorem C8_counterexample:
  "(case Parse (ascii ''{+!}'') of
      Ok p \<Rightarrow> children (p ! 1) \<noteq> [IncNode 1 2 1] \<and> FuncExecNode 2 3 \<in> set (children (p ! 1))
    | Err err \<Rightarrow> False
    | Panic k \<Rightarrow> False)"
  by code_simp

text \<open>
  Claim C8, amended. Parsing \<open>{+!}\<close> yields exactly one top-level \<open>FunctionNode\<close>, between
  preamble and postamble, whose children are an increment of count 1 followed by the
  \<open>FuncExecNode\<close>.
\<close>

theorem C8_function_body:
  "Parse (ascii ''{+!}'') =
     Ok [PreambleNode 0 0 False False,
         FunctionNode 1 3 [IncNode 1 2 1, FuncExecNode 2 3],
         PostambleNode 0 0]"
  by code_simp

end
